theory Spec2Isabelle
  imports Complex_Main
begin

section \<open>Gaussian\_poolOrNot.c: one Gaussian or a mixture of two\<close>

text \<open>
  The program estimates the marginal likelihood of a sample of \<open>DATA_N\<close> numbers under
  a one-component and under a two-component Gaussian model, once by a Riemann sum over
  grids of prior quantiles and once by sampling from the prior.

  Numbers of type \<open>double\<close> are idealised as real numbers: rounding, overflow and
  underflow are not modelled. The one place where real arithmetic has no value, the
  scale \<open>1/sqrt(0)\<close>, is modelled explicitly (type \<open>scale\<close> below).
  Values of type \<open>uint\<close> are natural numbers; the one conversion that can wrap (the
  result of \<open>atoi\<close> stored in a \<open>uint\<close>) is written out modulo \<open>2 ^ 32\<close>.
\<close>

subsection \<open>Constants\<close>

definition DATA_N :: nat where "DATA_N = 40"
definition CDF_GAUSS_N :: nat where "CDF_GAUSS_N = 20"
definition CDF_GAMMA_N :: nat where "CDF_GAMMA_N = 10"
definition CDF_JBETA_N :: nat where "CDF_JBETA_N = 40"

definition dataN :: nat where "dataN = DATA_N"
definition sampleRepeatNum :: nat where "sampleRepeatNum = 2000000"

text \<open>\<open>const double cdf_Gauss_n = CDF_GAUSS_N\<close> and its two siblings hold whole numbers;
  they bound loops over \<open>uint\<close> indices and are kept as natural numbers.\<close>

definition cdf_Gauss_n :: nat where "cdf_Gauss_n = CDF_GAUSS_N"
definition cdf_gamma_n :: nat where "cdf_gamma_n = CDF_GAMMA_N"
definition cdf_JBeta_n :: nat where "cdf_JBeta_n = CDF_JBETA_N"

definition sigma_prior_param_a :: real where "sigma_prior_param_a = 0.5"
definition sigma_prior_param_b :: real where "sigma_prior_param_b = 2.0"

subsection \<open>Parameters of the models\<close>

text \<open>
  A scale is the result of \<open>sigma_of_precision\<close>. For a positive precision it is a
  positive real number. For precision zero the division \<open>1/sqrt(0)\<close> of two doubles
  gives \<open>+inf\<close>, and for a negative precision \<open>sqrt\<close> gives a NaN; neither is
  a real number, so both are values of their own.
\<close>

datatype scale = Finite real | PosInf | NaN

text \<open>\<open>Gauss_params\<close> is declared in \<open>GSLfun.h\<close>, which is not among the sources; its
  two fields \<open>mu\<close> and \<open>sigma\<close> (in this order, see the initialiser \<open>{mu, sigma}\<close>)
  are read from their uses.\<close>

record Gauss_params =
  mu :: real
  sigma :: scale

record Gauss_mixture_params =
  mixCof :: real
  Gauss1 :: Gauss_params
  Gauss2 :: Gauss_params

definition mu_prior_params :: Gauss_params where
  "mu_prior_params = \<lparr>mu = 0.0, sigma = Finite 4.0\<rparr>"

text \<open>Modelled from the spec: \<open>sigma_of_precision\<close> is defined in \<open>GSLfun.c\<close>, which is
  not among the sources. The spec gives it as \<open>scale = 1/sqrt(precision)\<close>; on doubles
  that is \<open>+inf\<close> at precision zero and a NaN below.\<close>

definition sigma_of_precision :: "real \<Rightarrow> scale" where
  "sigma_of_precision precision =
     (if 0 < precision then Finite (1 / sqrt precision)
      else if precision = 0 then PosInf
      else NaN)"

text \<open>A scale that is a positive real number.\<close>

definition positive_finite :: "scale \<Rightarrow> bool" where
  "positive_finite sg = (case sg of Finite s \<Rightarrow> 0 < s | _ \<Rightarrow> False)"

subsection \<open>The library\<close>

text \<open>
  The density, the quantile functions and the random deviates come from the GNU
  Scientific Library through \<open>GSLfun.c\<close>. They are parameters of the model, collected in
  one record. The generator's state has an abstract type \<open>'r\<close>; a function that draws a
  deviate takes the state and returns the deviate with the next state.
\<close>

record 'r GSLfun =
  GSLfun_ran_gaussian_pdf :: "real \<Rightarrow> Gauss_params \<Rightarrow> real"
  gsl_cdf_gaussian_Pinv :: "real \<Rightarrow> scale \<Rightarrow> real"
  cdf_gamma_Pinv :: "real \<Rightarrow> real \<Rightarrow> real \<Rightarrow> real"
  gsl_cdf_beta_Pinv :: "real \<Rightarrow> real \<Rightarrow> real \<Rightarrow> real"
  GSLfun_setup :: "'r \<Rightarrow> 'r"
  GSLfun_ran_gaussian :: "Gauss_params \<Rightarrow> 'r \<Rightarrow> real \<times> 'r"
  GSLfun_ran_gamma :: "real \<Rightarrow> real \<Rightarrow> 'r \<Rightarrow> real \<times> 'r"
  GSLfun_ran_beta_Jeffreys :: "'r \<Rightarrow> real \<times> 'r"
  gsl_ran_flat01 :: "'r \<Rightarrow> real \<times> 'r"

text \<open>
  \<open>gsl_cdf_gaussian_Pinv P sigma\<close> is the quantile of the zero-mean Gaussian of scale
  \<open>sigma\<close>, \<open>gsl_cdf_beta_Pinv P a b\<close> that of the Beta distribution, and
  \<open>GSLfun_ran_gaussian_pdf x params\<close> the density at \<open>x\<close> of the Gaussian with the
  parameters \<open>params\<close>.

  The quantile of the Gamma distribution is the library's parameter \<open>cdf_gamma_Pinv\<close>
  for a probability other than zero. At probability zero it is the lower end of the
  distribution's support, zero, which is what \<open>gsl_cdf_gamma_Pinv\<close> returns for
  \<open>P == 0.0\<close>.
\<close>

definition gsl_cdf_gamma_Pinv :: "'r GSLfun \<Rightarrow> real \<Rightarrow> real \<Rightarrow> real \<Rightarrow> real" where
  "gsl_cdf_gamma_Pinv E P a b = (if P = 0 then 0 else cdf_gamma_Pinv E P a b)"

subsection \<open>The program's state\<close>

text \<open>The global arrays \<open>data\<close>, \<open>cdfInv_Gauss\<close>, \<open>cdfInv_gamma\<close> and \<open>cdfInv_JBeta\<close>,
  and the state of the library's generator.\<close>

record 'r state =
  data :: "real list"
  cdfInv_Gauss :: "real list"
  cdfInv_gamma :: "real list"
  cdfInv_JBeta :: "real list"
  rng :: 'r

text \<open>The arrays have the sizes of their declarations. Every loop of the program
  indexes an array below its declared size, so that in such a state no access is out of
  range.\<close>

definition wf_state :: "'r state \<Rightarrow> bool" where
  "wf_state s \<longleftrightarrow>
     length (data s) = DATA_N \<and> length (cdfInv_Gauss s) = CDF_GAUSS_N \<and>
     length (cdfInv_gamma s) = CDF_GAMMA_N \<and> length (cdfInv_JBeta s) = CDF_JBETA_N"

text \<open>At program start the arrays hold zeros.\<close>

definition init_state :: "'r \<Rightarrow> 'r state" where
  "init_state r =
     \<lparr>data = replicate DATA_N 0, cdfInv_Gauss = replicate CDF_GAUSS_N 0,
      cdfInv_gamma = replicate CDF_GAMMA_N 0, cdfInv_JBeta = replicate CDF_JBETA_N 0,
      rng = r\<rparr>"

subsection \<open>Counted loops\<close>

text \<open>\<open>for (uint i = lo; i < n; ++i) acc = body i acc\<close>.\<close>

function for_uint :: "nat \<Rightarrow> nat \<Rightarrow> (nat \<Rightarrow> 'a \<Rightarrow> 'a) \<Rightarrow> 'a \<Rightarrow> 'a" where
  "for_uint i n body acc = (if i < n then for_uint (Suc i) n body (body i acc) else acc)"
  by pat_completeness auto
termination
  by (relation "measure (\<lambda>(i, n, body, acc). n - i)") auto

declare for_uint.simps [simp del]

subsection \<open>Sampling parameters and generating data\<close>

text \<open>Lines 83 to 110 of the source. A sampler draws the mean before the precision, and
  the weight before the two components; \<open>data_generate_2component\<close> draws the uniform
  deviate before the Gaussian one.\<close>

definition prior_Gauss_params_sample :: "'r GSLfun \<Rightarrow> 'r \<Rightarrow> Gauss_params \<times> 'r" where
  "prior_Gauss_params_sample E r =
     (let (m, r1) = GSLfun_ran_gaussian E mu_prior_params r;
          (g, r2) = GSLfun_ran_gamma E sigma_prior_param_a sigma_prior_param_b r1
      in (\<lparr>mu = m, sigma = sigma_of_precision g\<rparr>, r2))"

definition prior_Gauss_mixture_params_sample ::
  "'r GSLfun \<Rightarrow> 'r \<Rightarrow> Gauss_mixture_params \<times> 'r" where
  "prior_Gauss_mixture_params_sample E r =
     (let (w, r1) = GSLfun_ran_beta_Jeffreys E r;
          (g1, r2) = prior_Gauss_params_sample E r1;
          (g2, r3) = prior_Gauss_params_sample E r2
      in (\<lparr>mixCof = w, Gauss1 = g1, Gauss2 = g2\<rparr>, r3))"

definition data_generate_1component :: "'r GSLfun \<Rightarrow> Gauss_params \<Rightarrow> 'r state \<Rightarrow> 'r state" where
  "data_generate_1component E params s =
     for_uint 0 dataN
       (\<lambda>i s. let (x, r) = GSLfun_ran_gaussian E params (rng s)
              in s\<lparr>data := (data s)[i := x], rng := r\<rparr>) s"

definition data_generate_2component ::
  "'r GSLfun \<Rightarrow> Gauss_mixture_params \<Rightarrow> 'r state \<Rightarrow> 'r state" where
  "data_generate_2component E params s =
     for_uint 0 dataN
       (\<lambda>i s. let (u, r1) = gsl_ran_flat01 E (rng s);
                  (x, r2) = GSLfun_ran_gaussian E
                              (if u < mixCof params then Gauss1 params else Gauss2 params) r1
              in s\<lparr>data := (data s)[i := x], rng := r2\<rparr>) s"

subsection \<open>The quantile grids\<close>

text \<open>Lines 122 to 140 of the source.\<close>

definition cdfInv_precompute :: "'r GSLfun \<Rightarrow> 'r state \<Rightarrow> 'r state" where
  "cdfInv_precompute E s =
     (let s1 = for_uint 0 cdf_Gauss_n
                 (\<lambda>i s. let x = real (i + 1) / real (1 + cdf_Gauss_n)
                        in s\<lparr>cdfInv_Gauss :=
                               (cdfInv_Gauss s)[i := gsl_cdf_gaussian_Pinv E x (sigma mu_prior_params)]\<rparr>) s;
          s2 = for_uint 0 cdf_gamma_n
                 (\<lambda>i s. let x = real i / real cdf_gamma_n
                        in s\<lparr>cdfInv_gamma :=
                               (cdfInv_gamma s)[i := gsl_cdf_gamma_Pinv E x
                                                       sigma_prior_param_a sigma_prior_param_b]\<rparr>) s1;
          s3 = for_uint 0 cdf_JBeta_n
                 (\<lambda>i s. let x = 0.5 * real i / real cdf_JBeta_n
                        in s\<lparr>cdfInv_JBeta :=
                               (cdfInv_JBeta s)[i := gsl_cdf_beta_Pinv E x 0.5 0.5]\<rparr>) s2
      in s3)"

subsection \<open>The Riemann sums\<close>

text \<open>Lines 149 to 165 and 173 to 201 of the source.\<close>

definition data_prob_1component_bySumming :: "'r GSLfun \<Rightarrow> 'r state \<Rightarrow> real \<times> 'r state" where
  "data_prob_1component_bySumming E st =
     (let prob_total =
        for_uint 0 cdf_Gauss_n
          (\<lambda>m prob_total.
             let mu = cdfInv_Gauss st ! m in
             for_uint 0 cdf_gamma_n
               (\<lambda>s prob_total.
                  let sigma = sigma_of_precision (cdfInv_gamma st ! s);
                      cur_params = \<lparr>mu = mu, sigma = sigma\<rparr>;
                      curProb = for_uint 0 dataN
                                  (\<lambda>d curProb.
                                     let newProb = GSLfun_ran_gaussian_pdf E (data st ! d) cur_params
                                     in curProb * newProb) 1
                  in prob_total + curProb)
               prob_total)
          0
      in (prob_total / real (cdf_Gauss_n * cdf_gamma_n), st))"

text \<open>The density of one observation under the mixture, as the Riemann sum writes it.\<close>

definition newProb_bySumming ::
  "'r GSLfun \<Rightarrow> real \<Rightarrow> Gauss_params \<Rightarrow> Gauss_params \<Rightarrow> real \<Rightarrow> real" where
  "newProb_bySumming E w cur_params1 cur_params2 x =
     w * GSLfun_ran_gaussian_pdf E x cur_params1
     + (1 - w) * GSLfun_ran_gaussian_pdf E x cur_params2"

definition data_prob_2component_bySumming :: "'r GSLfun \<Rightarrow> 'r state \<Rightarrow> real \<times> 'r state" where
  "data_prob_2component_bySumming E st =
     (let prob_total =
        for_uint 0 cdf_Gauss_n
          (\<lambda>m1 prob_total.
             let mu1 = cdfInv_Gauss st ! m1 in
             for_uint 0 cdf_Gauss_n
               (\<lambda>m2 prob_total.
                  let mu2 = cdfInv_Gauss st ! m2 in
                  for_uint 0 cdf_gamma_n
                    (\<lambda>s1 prob_total.
                       let sigma1 = sigma_of_precision (cdfInv_gamma st ! s1);
                           cur_params1 = \<lparr>mu = mu1, sigma = sigma1\<rparr>
                       in for_uint 0 cdf_gamma_n
                            (\<lambda>s2 prob_total.
                               let sigma2 = sigma_of_precision (cdfInv_gamma st ! s2);
                                   cur_params2 = \<lparr>mu = mu2, sigma = sigma2\<rparr>
                               in for_uint 0 cdf_JBeta_n
                                    (\<lambda>mi prob_total.
                                       let mixCof = cdfInv_JBeta st ! mi;
                                           curProb = for_uint 0 dataN
                                             (\<lambda>d curProb.
                                                let newProb = newProb_bySumming E mixCof
                                                                cur_params1 cur_params2 (data st ! d)
                                                in curProb * newProb) 1
                                       in prob_total + curProb)
                                    prob_total)
                            prob_total)
                    prob_total)
               prob_total)
          0
      in (prob_total /
            real (cdf_Gauss_n * cdf_Gauss_n * cdf_gamma_n * cdf_gamma_n * cdf_JBeta_n), st))"

subsection \<open>The estimates by sampling\<close>

text \<open>Lines 208 to 220 and 227 to 242 of the source.\<close>

definition data_prob_1component_bySampling :: "'r GSLfun \<Rightarrow> 'r state \<Rightarrow> real \<times> 'r state" where
  "data_prob_1component_bySampling E st =
     (let (prob_total, r) =
        for_uint 0 sampleRepeatNum
          (\<lambda>iter (prob_total, r).
             let (params, r') = prior_Gauss_params_sample E r;
                 curProb = for_uint 0 dataN
                             (\<lambda>d curProb. curProb * GSLfun_ran_gaussian_pdf E (data st ! d) params) 1
             in (prob_total + curProb, r'))
          (0, rng st)
      in (prob_total / real sampleRepeatNum, st\<lparr>rng := r\<rparr>))"

text \<open>The density of one observation under the mixture, as the sampling estimate writes it.\<close>

definition newProb_bySampling :: "'r GSLfun \<Rightarrow> Gauss_mixture_params \<Rightarrow> real \<Rightarrow> real" where
  "newProb_bySampling E params x =
     (1 - mixCof params) * GSLfun_ran_gaussian_pdf E x (Gauss2 params)
     + mixCof params * GSLfun_ran_gaussian_pdf E x (Gauss1 params)"

definition data_prob_2component_bySampling :: "'r GSLfun \<Rightarrow> 'r state \<Rightarrow> real \<times> 'r state" where
  "data_prob_2component_bySampling E st =
     (let (prob_total, r) =
        for_uint 0 sampleRepeatNum
          (\<lambda>iter (prob_total, r).
             let (params, r') = prior_Gauss_mixture_params_sample E r;
                 curProb = for_uint 0 dataN
                             (\<lambda>i curProb.
                                let newProb = newProb_bySampling E params (data st ! i)
                                in curProb * newProb) 1
             in (prob_total + curProb, r'))
          (0, rng st)
      in (prob_total / real sampleRepeatNum, st\<lparr>rng := r\<rparr>))"

text \<open>The values that \<open>n\<close> successive calls of a state-passing function return, and
  the state after them.\<close>

primrec draws :: "('s \<Rightarrow> 'a \<times> 's) \<Rightarrow> nat \<Rightarrow> 's \<Rightarrow> 'a list" where
  "draws sample 0 s = []"
| "draws sample (Suc n) s = fst (sample s) # draws sample n (snd (sample s))"

primrec state_after :: "('s \<Rightarrow> 'a \<times> 's) \<Rightarrow> nat \<Rightarrow> 's \<Rightarrow> 's" where
  "state_after sample 0 s = s"
| "state_after sample (Suc n) s = state_after sample n (snd (sample s))"

subsection \<open>The driver\<close>

text \<open>The two loops of \<open>main\<close>, lines 285 to 299 and 303 to 320 of the source. Of what
  the program prints, the model keeps the \<open>Integrals\<close> line of every trial and the
  four lines of the final report.\<close>

text \<open>The four estimates of one trial, which the program prints on its
  \<open>Integrals\<close> line.\<close>

record estimates =
  prob_data1_bySampling :: real
  prob_data2_bySampling :: real
  prob_data1_bySumming :: real
  prob_data2_bySumming :: real

definition trial_estimates :: "'r GSLfun \<Rightarrow> 'r state \<Rightarrow> estimates \<times> 'r state" where
  "trial_estimates E s =
     (let (a, s1) = data_prob_1component_bySampling E s;
          (b, s2) = data_prob_2component_bySampling E s1;
          (c, s3) = data_prob_1component_bySumming E s2;
          (d, s4) = data_prob_2component_bySumming E s3
      in (\<lparr>prob_data1_bySampling = a, prob_data2_bySampling = b,
           prob_data1_bySumming = c, prob_data2_bySumming = d\<rparr>, s4))"

text \<open>One trial with data of one component (the loop body up to the \<open>Integrals\<close>
  line), and one with data of two components.\<close>

definition model1_estimates :: "'r GSLfun \<Rightarrow> 'r state \<Rightarrow> estimates \<times> 'r state" where
  "model1_estimates E s =
     (let (model_params, r) = prior_Gauss_params_sample E (rng s);
          s1 = data_generate_1component E model_params (s\<lparr>rng := r\<rparr>)
      in trial_estimates E s1)"

definition model2_estimates :: "'r GSLfun \<Rightarrow> 'r state \<Rightarrow> estimates \<times> 'r state" where
  "model2_estimates E s =
     (let (model_params, r) = prior_Gauss_mixture_params_sample E (rng s);
          s1 = data_generate_2component E model_params (s\<lparr>rng := r\<rparr>)
      in trial_estimates E s1)"

text \<open>What a loop of trials carries: the program's state, the two counters of its
  ground-truth model, and the \<open>Integrals\<close> lines printed so far. A counter is
  incremented at most once per trial, and the number of trials is a \<open>uint\<close>, so no
  counter wraps.\<close>

record 'r trials =
  prog :: "'r state"
  sampling_favors1 :: nat
  summing__favors1 :: nat
  integrals :: "estimates list"

text \<open>The two \<open>if\<close> statements that end the body of either loop.\<close>

definition count_favors1 :: "estimates \<Rightarrow> 'r trials \<Rightarrow> 'r trials" where
  "count_favors1 e t =
     t\<lparr>sampling_favors1 :=
         (if prob_data1_bySampling e > prob_data2_bySampling e
          then sampling_favors1 t + 1 else sampling_favors1 t),
       summing__favors1 :=
         (if prob_data1_bySumming e > prob_data2_bySumming e
          then summing__favors1 t + 1 else summing__favors1 t)\<rparr>"

definition model1_trial :: "'r GSLfun \<Rightarrow> 'r trials \<Rightarrow> 'r trials" where
  "model1_trial E t =
     (let (e, s) = model1_estimates E (prog t)
      in count_favors1 e (t\<lparr>prog := s, integrals := integrals t @ [e]\<rparr>))"

definition model2_trial :: "'r GSLfun \<Rightarrow> 'r trials \<Rightarrow> 'r trials" where
  "model2_trial E t =
     (let (e, s) = model2_estimates E (prog t)
      in count_favors1 e (t\<lparr>prog := s, integrals := integrals t @ [e]\<rparr>))"

subsection \<open>The command line\<close>

text \<open>\<open>atoi\<close> of the C library: it skips white space, reads an optional sign and the
  decimal digits that follow, and ignores the rest. Its behaviour is undefined when the
  number does not fit an \<open>int\<close>.\<close>

definition isspace :: "char \<Rightarrow> bool" where
  "isspace c \<longleftrightarrow> c \<in> set [CHR '' '', CHR 0x09, CHR 0x0A, CHR 0x0B, CHR 0x0C, CHR 0x0D]"

definition isdigit :: "char \<Rightarrow> bool" where
  "isdigit c \<longleftrightarrow> c \<in> set ''0123456789''"

definition digit_value :: "char \<Rightarrow> int" where
  "digit_value c = int (of_char c) - 48"

fun decimal :: "string \<Rightarrow> int \<Rightarrow> int" where
  "decimal [] v = v"
| "decimal (c # cs) v = (if isdigit c then decimal cs (10 * v + digit_value c) else v)"

definition atoi :: "string \<Rightarrow> int option" where
  "atoi str =
     (let t = dropWhile isspace str;
          v = (case t of
                 [] \<Rightarrow> 0
               | c # cs \<Rightarrow>
                   if c = CHR ''-'' then - decimal cs 0
                   else if c = CHR ''+'' then decimal cs 0
                   else decimal t 0)
      in if - (2 ^ 31) \<le> v \<and> v < 2 ^ 31 then Some v else None)"

text \<open>The conversion of an \<open>int\<close> to a \<open>uint\<close> of 32 bits.\<close>

definition uint_of_int :: "int \<Rightarrow> nat" where
  "uint_of_int v = nat (v mod 2 ^ 32)"

definition usage_fmt :: "string \<Rightarrow> string" where
  "usage_fmt argv0 = ''Usage: '' @ argv0 @ '' [num_datasets]'' @ [CHR 0x0A]"

text \<open>How the program can end before it computes anything: with the usage message and
  an exit status, or in undefined behaviour (\<open>atoi\<close> out of range; no \<open>argv[0]\<close> to
  print).\<close>

datatype early = Usage string nat | Undefined

text \<open>The block of \<open>main\<close> that reads the command line: the number of data sets per
  model, or an early end. \<open>argv\<close> is the whole vector, the program's name first.\<close>

fun main_args :: "string list \<Rightarrow> early + nat" where
  "main_args [] = Inl Undefined"
| "main_args [argv0] = Inr 10"
| "main_args [argv0, argv1] =
     (case atoi argv1 of
        None \<Rightarrow> Inl Undefined
      | Some v \<Rightarrow>
          let datasets_n = uint_of_int v
          in if datasets_n = 0 then Inl (Usage (usage_fmt argv0) 64) else Inr datasets_n)"
| "main_args (argv0 # argv1 # argv2 # rest) = Inl (Usage (usage_fmt argv0) 64)"

text \<open>What the model keeps of the output of a complete run: the \<open>Integrals\<close> lines
  of the trials of either ground-truth model, and the four lines
  \<open>correct selection %u/%u\<close>, each a pair of the two numbers printed.\<close>

record summary =
  integrals_model1 :: "estimates list"
  integrals_model2 :: "estimates list"
  sampling_model1 :: "nat \<times> nat"
  sampling_model2 :: "nat \<times> nat"
  summing_model1 :: "nat \<times> nat"
  summing_model2 :: "nat \<times> nat"

definition main :: "'r GSLfun \<Rightarrow> string list \<Rightarrow> 'r state \<Rightarrow> (early + summary) \<times> 'r state" where
  "main E argv s =
     (case main_args argv of
        Inl e \<Rightarrow> (Inl e, s)
      | Inr datasets_n \<Rightarrow>
          let s1 = s\<lparr>rng := GSLfun_setup E (rng s)\<rparr>;
              s2 = cdfInv_precompute E s1;
              t1 = for_uint 0 datasets_n (\<lambda>iter. model1_trial E)
                     \<lparr>prog = s2, sampling_favors1 = 0, summing__favors1 = 0, integrals = []\<rparr>;
              t2 = for_uint 0 datasets_n (\<lambda>iter. model2_trial E)
                     \<lparr>prog = prog t1, sampling_favors1 = 0, summing__favors1 = 0,
                      integrals = []\<rparr>
          in (Inr \<lparr>integrals_model1 = integrals t1, integrals_model2 = integrals t2,
                   sampling_model1 = (sampling_favors1 t1, datasets_n),
                   sampling_model2 = (datasets_n - sampling_favors1 t2, datasets_n),
                   summing_model1 = (summing__favors1 t1, datasets_n),
                   summing_model2 = (datasets_n - summing__favors1 t2, datasets_n)\<rparr>,
              prog t2))"

subsection \<open>A library to run the program on\<close>

text \<open>A small instance of the library, on which the program can be evaluated: its
  generator's state is the number of deviates drawn so far, its Gaussian deviate is that
  number, and its density is positive only for mean zero.\<close>

definition counting_GSL :: "nat GSLfun" where
  "counting_GSL =
     \<lparr>GSLfun_ran_gaussian_pdf = (\<lambda>x p. if mu p = 0 then 1 else 0),
      gsl_cdf_gaussian_Pinv = (\<lambda>P sg. case sg of Finite s \<Rightarrow> s * P | _ \<Rightarrow> 0),
      cdf_gamma_Pinv = (\<lambda>P a b. P),
      gsl_cdf_beta_Pinv = (\<lambda>P a b. P),
      GSLfun_setup = (\<lambda>r. r),
      GSLfun_ran_gaussian = (\<lambda>p r. (real r, Suc r)),
      GSLfun_ran_gamma = (\<lambda>a b r. (1, Suc r)),
      GSLfun_ran_beta_Jeffreys = (\<lambda>r. (1 / 2, Suc r)),
      gsl_ran_flat01 = (\<lambda>r. (0, Suc r))\<rparr>"

subsection \<open>Notions used in the statements\<close>

text \<open>A command-line argument that is a positive integer in decimal digits.\<close>

definition positive_integer :: "string \<Rightarrow> bool" where
  "positive_integer str \<longleftrightarrow> str \<noteq> [] \<and> list_all isdigit str \<and> 0 < decimal str 0"

text \<open>Four estimates that are all zero.\<close>

definition all_zero :: estimates where
  "all_zero = \<lparr>prob_data1_bySampling = 0, prob_data2_bySampling = 0,
               prob_data1_bySumming = 0, prob_data2_bySumming = 0\<rparr>"

text \<open>What generating a data set leaves as it is: the size of the data set, and the
  grids.\<close>

definition generated :: "'r state \<Rightarrow> 'r state \<Rightarrow> bool" where
  "generated s s' \<longleftrightarrow>
     length (data s') = length (data s) \<and> cdfInv_Gauss s' = cdfInv_Gauss s \<and>
     cdfInv_gamma s' = cdfInv_gamma s \<and> cdfInv_JBeta s' = cdfInv_JBeta s"

text \<open>A state whose mean grid has no node at zero.\<close>

definition nonzero_means :: "'r state \<Rightarrow> bool" where
  "nonzero_means s \<longleftrightarrow> wf_state s \<and> 0 \<notin> set (cdfInv_Gauss s)"

section \<open>Loops as sums and products\<close>

lemma for_uint_fold: "for_uint i n body acc = fold body [i..<n] acc"
proof (induction i n body acc rule: for_uint.induct)
  case (1 i n body acc)
  show ?case
  proof (cases "i < n")
    case True
    with 1 show ?thesis
      by (subst for_uint.simps) (simp add: upt_conv_Cons)
  next
    case False
    then show ?thesis
      by (subst for_uint.simps) simp
  qed
qed

lemma fold_add: "fold (\<lambda>i acc. acc + f i) xs (a::real) = a + (\<Sum>i\<leftarrow>xs. f i)"
  by (induction xs arbitrary: a) (simp_all add: add.assoc)

lemma fold_mult: "fold (\<lambda>i acc. acc * f i) xs (a::real) = a * (\<Prod>i\<leftarrow>xs. f i)"
  by (induction xs arbitrary: a) (simp_all add: mult.assoc)

lemma for_uint_add: "for_uint 0 n (\<lambda>i acc. acc + f i) (a::real) = a + (\<Sum>i\<leftarrow>[0..<n]. f i)"
  by (simp add: for_uint_fold fold_add)

lemma for_uint_mult: "for_uint 0 n (\<lambda>i acc. acc * f i) (a::real) = a * (\<Prod>i\<leftarrow>[0..<n]. f i)"
  by (simp add: for_uint_fold fold_mult)

lemma map_nth_upt: "length xs = n \<Longrightarrow> map (\<lambda>i. f (xs ! i)) [0..<n] = map f xs"
  by (auto intro: nth_equalityI)

lemma sum_nth_upt: "length xs = n \<Longrightarrow> (\<Sum>i\<leftarrow>[0..<n]. (f (xs ! i) :: real)) = (\<Sum>x\<leftarrow>xs. f x)"
  using map_nth_upt [of xs n f] by simp

lemma prod_nth_upt: "length xs = n \<Longrightarrow> (\<Prod>i\<leftarrow>[0..<n]. (f (xs ! i) :: real)) = (\<Prod>x\<leftarrow>xs. f x)"
  using map_nth_upt [of xs n f] by simp

lemma sum_list_product:
  "(\<Sum>p\<leftarrow>List.product xs ys. (f p :: real)) = (\<Sum>x\<leftarrow>xs. \<Sum>y\<leftarrow>ys. f (x, y))"
  by (induction xs) (simp_all add: comp_def)

lemma sum_list_index:
  "(\<Sum>x\<leftarrow>xs. (f x :: real)) = (\<Sum>i\<leftarrow>[0..<length xs]. f (xs ! i))"
  using map_nth_upt [of xs "length xs" f] by simp

lemma prod_list_index:
  "(\<Prod>x\<leftarrow>xs. (f x :: real)) = (\<Prod>i\<leftarrow>[0..<length xs]. f (xs ! i))"
  using map_nth_upt [of xs "length xs" f] by simp

lemma for_uint_add_fun:
  "for_uint 0 n (\<lambda>i acc. acc + f i) = (\<lambda>a::real. a + (\<Sum>i\<leftarrow>[0..<n]. f i))"
  by (rule ext) (rule for_uint_add)

lemma wf_state_lengths:
  assumes "wf_state st"
  shows "length (data st) = dataN" "length (cdfInv_Gauss st) = cdf_Gauss_n"
    "length (cdfInv_gamma st) = cdf_gamma_n" "length (cdfInv_JBeta st) = cdf_JBeta_n"
  using assms
  by (simp_all add: wf_state_def dataN_def cdf_Gauss_n_def cdf_gamma_n_def cdf_JBeta_n_def)

section \<open>The Riemann sums in closed form\<close>

lemma bySumming1_closed:
  assumes "wf_state st"
  shows "fst (data_prob_1component_bySumming E st) =
     (\<Sum>(m, prec)\<leftarrow>List.product (cdfInv_Gauss st) (cdfInv_gamma st).
        \<Prod>x\<leftarrow>data st. GSLfun_ran_gaussian_pdf E x \<lparr>mu = m, sigma = sigma_of_precision prec\<rparr>)
     / real (CDF_GAUSS_N * CDF_GAMMA_N)"
  unfolding data_prob_1component_bySumming_def Let_def fst_conv sum_list_product
  by (simp add: for_uint_add_fun for_uint_add for_uint_mult sum_list_index [of _ "cdfInv_Gauss st"]
        sum_list_index [of _ "cdfInv_gamma st"] prod_list_index [of _ "data st"]
        wf_state_lengths [OF assms] cdf_Gauss_n_def cdf_gamma_n_def)

lemma bySumming2_closed:
  assumes "wf_state st"
  shows "fst (data_prob_2component_bySumming E st) =
     (\<Sum>(m1, m2, prec1, prec2, w)\<leftarrow>
          List.product (cdfInv_Gauss st) (List.product (cdfInv_Gauss st)
            (List.product (cdfInv_gamma st) (List.product (cdfInv_gamma st) (cdfInv_JBeta st)))).
        \<Prod>x\<leftarrow>data st.
          w * GSLfun_ran_gaussian_pdf E x \<lparr>mu = m1, sigma = sigma_of_precision prec1\<rparr>
          + (1 - w) * GSLfun_ran_gaussian_pdf E x \<lparr>mu = m2, sigma = sigma_of_precision prec2\<rparr>)
     / real (CDF_GAUSS_N * CDF_GAUSS_N * CDF_GAMMA_N * CDF_GAMMA_N * CDF_JBETA_N)"
  unfolding data_prob_2component_bySumming_def Let_def fst_conv sum_list_product
    newProb_bySumming_def
  by (simp add: for_uint_add_fun for_uint_add for_uint_mult sum_list_index [of _ "cdfInv_Gauss st"]
        sum_list_index [of _ "cdfInv_gamma st"] sum_list_index [of _ "cdfInv_JBeta st"]
        prod_list_index [of _ "data st"]
        wf_state_lengths [OF assms] cdf_Gauss_n_def cdf_gamma_n_def cdf_JBeta_n_def)

lemma bySumming1_frame: "snd (data_prob_1component_bySumming E st) = st"
  by (simp add: data_prob_1component_bySumming_def Let_def)

lemma bySumming2_frame: "snd (data_prob_2component_bySumming E st) = st"
  by (simp add: data_prob_2component_bySumming_def Let_def)

section \<open>The sampling estimates in closed form\<close>

lemma draws_snoc:
  "draws sample (Suc n) s = draws sample n s @ [fst (sample (state_after sample n s))]"
  by (induction n arbitrary: s) simp_all

lemma state_after_Suc:
  "state_after sample (Suc n) s = snd (sample (state_after sample n s))"
  by (induction n arbitrary: s) simp_all

lemma length_draws: "length (draws sample n s) = n"
  by (induction n arbitrary: s) simp_all

lemma for_uint_sample:
  "for_uint 0 n (\<lambda>iter p. (fst p + g (fst (sample (snd p))), snd (sample (snd p)))) (t::real, r0) =
     (t + (\<Sum>p\<leftarrow>draws sample n r0. g p), state_after sample n r0)"
proof (induction n)
  case 0
  show ?case by (simp add: for_uint_fold)
next
  case (Suc n)
  then show ?case
    by (simp add: for_uint_fold draws_snoc state_after_Suc del: draws.simps state_after.simps)
qed

lemma bySampling1_closed:
  "data_prob_1component_bySampling E st =
     ((\<Sum>params\<leftarrow>draws (prior_Gauss_params_sample E) sampleRepeatNum (rng st).
         \<Prod>d\<leftarrow>[0..<dataN]. GSLfun_ran_gaussian_pdf E (data st ! d) params)
       / real sampleRepeatNum,
      st\<lparr>rng := state_after (prior_Gauss_params_sample E) sampleRepeatNum (rng st)\<rparr>)"
  unfolding data_prob_1component_bySampling_def Let_def case_prod_beta for_uint_mult
  by (simp add: for_uint_sample [of sampleRepeatNum
      "\<lambda>params. \<Prod>d\<leftarrow>[0..<dataN]. GSLfun_ran_gaussian_pdf E (data st ! d) params"
      "prior_Gauss_params_sample E" 0 "rng st", simplified])

lemma bySampling2_closed:
  "data_prob_2component_bySampling E st =
     ((\<Sum>params\<leftarrow>draws (prior_Gauss_mixture_params_sample E) sampleRepeatNum (rng st).
         \<Prod>d\<leftarrow>[0..<dataN]. newProb_bySampling E params (data st ! d))
       / real sampleRepeatNum,
      st\<lparr>rng := state_after (prior_Gauss_mixture_params_sample E) sampleRepeatNum (rng st)\<rparr>)"
  unfolding data_prob_2component_bySampling_def Let_def case_prod_beta for_uint_mult
  by (simp add: for_uint_sample [of sampleRepeatNum
      "\<lambda>params. \<Prod>d\<leftarrow>[0..<dataN]. newProb_bySampling E params (data st ! d)"
      "prior_Gauss_mixture_params_sample E" 0 "rng st", simplified])

section \<open>The grids in closed form\<close>

lemma fold_update_prefix:
  "k \<le> length xs \<Longrightarrow> fold (\<lambda>i xs. xs[i := f i]) [0..<k] xs = map f [0..<k] @ drop k xs"
proof (induction k)
  case 0
  show ?case by simp
next
  case (Suc k)
  then have "k < length xs" by simp
  then have "(map f [0..<k] @ drop k xs)[k := f k] = map f [0..<k] @ f k # drop (Suc k) xs"
    by (simp add: list_update_append upd_conv_take_nth_drop)
  with Suc show ?case by simp
qed

lemma fold_update_map:
  "length xs = n \<Longrightarrow> fold (\<lambda>i xs. xs[i := f i]) [0..<n] xs = map f [0..<n]"
  using fold_update_prefix [of n xs f] by simp

lemma fold_Gauss:
  "fold (\<lambda>i s. s\<lparr>cdfInv_Gauss := (cdfInv_Gauss s)[i := f i]\<rparr>) js s =
     s\<lparr>cdfInv_Gauss := fold (\<lambda>i xs. xs[i := f i]) js (cdfInv_Gauss s)\<rparr>"
  by (induction js arbitrary: s) simp_all

lemma fold_gamma:
  "fold (\<lambda>i s. s\<lparr>cdfInv_gamma := (cdfInv_gamma s)[i := f i]\<rparr>) js s =
     s\<lparr>cdfInv_gamma := fold (\<lambda>i xs. xs[i := f i]) js (cdfInv_gamma s)\<rparr>"
  by (induction js arbitrary: s) simp_all

lemma fold_JBeta:
  "fold (\<lambda>i s. s\<lparr>cdfInv_JBeta := (cdfInv_JBeta s)[i := f i]\<rparr>) js s =
     s\<lparr>cdfInv_JBeta := fold (\<lambda>i xs. xs[i := f i]) js (cdfInv_JBeta s)\<rparr>"
  by (induction js arbitrary: s) simp_all

lemma cdfInv_precompute_closed:
  assumes "wf_state s"
  shows "cdfInv_precompute E s =
     s\<lparr>cdfInv_Gauss :=
          map (\<lambda>i. gsl_cdf_gaussian_Pinv E (real (i + 1) / real (1 + cdf_Gauss_n))
                     (sigma mu_prior_params)) [0..<cdf_Gauss_n],
        cdfInv_gamma :=
          map (\<lambda>i. gsl_cdf_gamma_Pinv E (real i / real cdf_gamma_n)
                     sigma_prior_param_a sigma_prior_param_b) [0..<cdf_gamma_n],
        cdfInv_JBeta :=
          map (\<lambda>i. gsl_cdf_beta_Pinv E (0.5 * real i / real cdf_JBeta_n) 0.5 0.5)
            [0..<cdf_JBeta_n]\<rparr>"
  unfolding cdfInv_precompute_def Let_def for_uint_fold fold_Gauss fold_gamma fold_JBeta
  by (simp add: fold_update_map wf_state_lengths [OF assms])

lemma wf_state_cdfInv_precompute: "wf_state s \<Longrightarrow> wf_state (cdfInv_precompute E s)"
  by (simp add: cdfInv_precompute_closed)
    (simp add: wf_state_def cdf_Gauss_n_def cdf_gamma_n_def cdf_JBeta_n_def)

lemma wf_state_init: "wf_state (init_state r)"
  by (simp add: wf_state_def init_state_def)

lemma map_from_one: "map f [1..<Suc n] = map (\<lambda>i. f (i + 1)) [0..<n]"
proof -
  have "[1..<Suc n] = map Suc [0..<n]"
    by (simp add: map_Suc_upt)
  then show ?thesis
    by (simp add: comp_def)
qed

lemma precompute_fields:
  assumes "wf_state s"
  shows "cdfInv_Gauss (cdfInv_precompute E s) =
           map (\<lambda>i. gsl_cdf_gaussian_Pinv E (real (i + 1) / 21) (Finite 4)) [0..<20]"
    and "cdfInv_gamma (cdfInv_precompute E s) =
           map (\<lambda>i. gsl_cdf_gamma_Pinv E (real i / 10) 0.5 2.0) [0..<10]"
    and "cdfInv_JBeta (cdfInv_precompute E s) =
           map (\<lambda>i. gsl_cdf_beta_Pinv E (0.5 * real i / 40) 0.5 0.5) [0..<40]"
    and "data (cdfInv_precompute E s) = data s"
    and "rng (cdfInv_precompute E s) = rng s"
  by (simp_all add: cdfInv_precompute_closed [OF assms] cdf_Gauss_n_def cdf_gamma_n_def
      cdf_JBeta_n_def CDF_GAUSS_N_def CDF_GAMMA_N_def CDF_JBETA_N_def mu_prior_params_def
      sigma_prior_param_a_def sigma_prior_param_b_def)

lemma bySampling1_data:
  assumes "wf_state st"
  shows "data_prob_1component_bySampling E st =
     ((\<Sum>params\<leftarrow>draws (prior_Gauss_params_sample E) sampleRepeatNum (rng st).
         \<Prod>x\<leftarrow>data st. GSLfun_ran_gaussian_pdf E x params)
       / real sampleRepeatNum,
      st\<lparr>rng := state_after (prior_Gauss_params_sample E) sampleRepeatNum (rng st)\<rparr>)"
  by (simp add: bySampling1_closed prod_list_index [of _ "data st"] wf_state_lengths [OF assms])

lemma bySampling2_data:
  assumes "wf_state st"
  shows "data_prob_2component_bySampling E st =
     ((\<Sum>params\<leftarrow>draws (prior_Gauss_mixture_params_sample E) sampleRepeatNum (rng st).
         \<Prod>x\<leftarrow>data st.
           ((1 - mixCof params) * GSLfun_ran_gaussian_pdf E x (Gauss2 params)
            + mixCof params * GSLfun_ran_gaussian_pdf E x (Gauss1 params)))
       / real sampleRepeatNum,
      st\<lparr>rng := state_after (prior_Gauss_mixture_params_sample E) sampleRepeatNum (rng st)\<rparr>)"
  by (simp add: bySampling2_closed prod_list_index [of _ "data st"] wf_state_lengths [OF assms]
      newProb_bySampling_def)

lemma bySumming1_rng:
  "fst (data_prob_1component_bySumming E (st\<lparr>rng := r\<rparr>)) =
     fst (data_prob_1component_bySumming E st)"
  by (simp add: data_prob_1component_bySumming_def Let_def)

lemma bySumming2_rng:
  "fst (data_prob_2component_bySumming E (st\<lparr>rng := r\<rparr>)) =
     fst (data_prob_2component_bySumming E st)"
  by (simp add: data_prob_2component_bySumming_def Let_def)

lemma wf_state_data_ne: "wf_state st \<Longrightarrow> data st \<noteq> []"
  by (auto simp: wf_state_def DATA_N_def)

lemma wf_state_rng [simp]: "wf_state (st\<lparr>rng := r\<rparr>) = wf_state st"
  by (simp add: wf_state_def)

section \<open>Scales\<close>

lemma positive_finite_sigma_of_precision:
  "0 < prec \<Longrightarrow> positive_finite (sigma_of_precision prec)"
  by (simp add: positive_finite_def sigma_of_precision_def)

lemma sigma_prior_sample:
  "sigma (fst (prior_Gauss_params_sample E r)) =
     sigma_of_precision (fst (GSLfun_ran_gamma E sigma_prior_param_a sigma_prior_param_b
                                (snd (GSLfun_ran_gaussian E mu_prior_params r))))"
  by (simp add: prior_Gauss_params_sample_def Let_def case_prod_beta)

lemma sigma_mixture_sample:
  "Gauss1 (fst (prior_Gauss_mixture_params_sample E r)) =
     fst (prior_Gauss_params_sample E (snd (GSLfun_ran_beta_Jeffreys E r)))"
  "Gauss2 (fst (prior_Gauss_mixture_params_sample E r)) =
     fst (prior_Gauss_params_sample E
            (snd (prior_Gauss_params_sample E (snd (GSLfun_ran_beta_Jeffreys E r)))))"
  by (simp_all add: prior_Gauss_mixture_params_sample_def Let_def case_prod_beta)


section \<open>The driver in closed form\<close>

lemma trials_loop:
  assumes body: "\<And>t. body t =
      (let (e, s) = est (prog t) in count_favors1 e (t\<lparr>prog := s, integrals := integrals t @ [e]\<rparr>))"
  shows "for_uint 0 n (\<lambda>iter. body) t =
     \<lparr>prog = state_after est n (prog t),
      sampling_favors1 = sampling_favors1 t +
        length (filter (\<lambda>e. prob_data1_bySampling e > prob_data2_bySampling e)
                  (draws est n (prog t))),
      summing__favors1 = summing__favors1 t +
        length (filter (\<lambda>e. prob_data1_bySumming e > prob_data2_bySumming e)
                  (draws est n (prog t))),
      integrals = integrals t @ draws est n (prog t)\<rparr>"
proof (induction n)
  case 0
  show ?case by (simp add: for_uint_fold)
next
  case (Suc n)
  then show ?case
    by (simp add: for_uint_fold body draws_snoc state_after_Suc count_favors1_def
        case_prod_beta Let_def del: draws.simps state_after.simps)
qed

lemma main_closed:
  assumes "main_args argv = Inr n"
  shows "main E argv s =
    (let s0 = cdfInv_precompute E (s\<lparr>rng := GSLfun_setup E (rng s)\<rparr>);
         es1 = draws (model1_estimates E) n s0;
         s1 = state_after (model1_estimates E) n s0;
         es2 = draws (model2_estimates E) n s1
     in (Inr \<lparr>integrals_model1 = es1, integrals_model2 = es2,
              sampling_model1 =
                (length (filter (\<lambda>e. prob_data1_bySampling e > prob_data2_bySampling e) es1), n),
              sampling_model2 =
                (length (filter (\<lambda>e. prob_data1_bySampling e \<le> prob_data2_bySampling e) es2), n),
              summing_model1 =
                (length (filter (\<lambda>e. prob_data1_bySumming e > prob_data2_bySumming e) es1), n),
              summing_model2 =
                (length (filter (\<lambda>e. prob_data1_bySumming e \<le> prob_data2_bySumming e) es2), n)\<rparr>,
         state_after (model2_estimates E) n s1))"
proof -
  have compl: "n - length (filter P (draws est n x)) = length (filter (\<lambda>e. \<not> P e) (draws est n x))"
    for P :: "estimates \<Rightarrow> bool" and est :: "'a state \<Rightarrow> estimates \<times> 'a state" and x
    using sum_length_filter_compl [of P "draws est n x"] by (simp add: length_draws)
  show ?thesis
    unfolding main_def Let_def
    by (simp add: assms trials_loop [of "model1_trial E" "model1_estimates E", OF model1_trial_def]
        trials_loop [of "model2_trial E" "model2_estimates E", OF model2_trial_def] compl not_less)
qed

section \<open>Generating data\<close>

lemma fold_generate:
  "generated s (fold (\<lambda>i s. s\<lparr>data := (data s)[i := v s], rng := nxt s\<rparr>) js s)"
proof (induction js arbitrary: s)
  case Nil
  show ?case by (simp add: generated_def)
next
  case (Cons j js)
  show ?case
    using Cons [of "s\<lparr>data := (data s)[j := v s], rng := nxt s\<rparr>"]
    by (simp add: generated_def)
qed

lemma generated_1component: "generated s (data_generate_1component E params s)"
  unfolding data_generate_1component_def for_uint_fold case_prod_beta Let_def
  by (rule fold_generate)

lemma generated_2component: "generated s (data_generate_2component E params s)"
  unfolding data_generate_2component_def for_uint_fold case_prod_beta Let_def
  by (rule fold_generate)

lemma fold_rng_mono:
  assumes "\<And>s. rng s \<le> nxt s"
  shows "(rng s :: nat) \<le> rng (fold (\<lambda>i s. s\<lparr>data := (data s)[i := v s], rng := nxt s\<rparr>) js s)"
proof (induction js arbitrary: s)
  case Nil
  show ?case by simp
next
  case (Cons j js)
  show ?case
    using Cons [of "s\<lparr>data := (data s)[j := v s], rng := nxt s\<rparr>"] assms [of s]
    by simp
qed

lemma counting_generate1_rng:
  "rng s \<le> rng (data_generate_1component counting_GSL params s)"
  unfolding data_generate_1component_def for_uint_fold case_prod_beta Let_def
  by (rule fold_rng_mono) (simp add: counting_GSL_def)

lemma counting_generate2_rng:
  "rng s \<le> rng (data_generate_2component counting_GSL params s)"
  unfolding data_generate_2component_def for_uint_fold case_prod_beta Let_def
  by (rule fold_rng_mono) (simp add: counting_GSL_def)

section \<open>Reading the command line\<close>

lemma isdigit_cases:
  "isdigit c \<Longrightarrow> \<not> isspace c \<and> c \<noteq> CHR ''-'' \<and> c \<noteq> CHR ''+''"
  by (auto simp: isdigit_def isspace_def)

lemma atoi_digits:
  assumes "str \<noteq> []" and "list_all isdigit str" and "decimal str 0 < 2 ^ 31"
    and "0 \<le> decimal str 0"
  shows "atoi str = Some (decimal str 0)"
proof -
  from assms(1,2) obtain c cs where str: "str = c # cs" and c: "isdigit c"
    by (cases str) simp_all
  from isdigit_cases [OF c] have "dropWhile isspace str = str"
    by (simp add: str)
  with isdigit_cases [OF c] assms(3,4) show ?thesis
    unfolding atoi_def Let_def by (simp add: str)
qed

lemma main_args_two:
  "atoi argv1 = Some v \<Longrightarrow>
   main_args [argv0, argv1] =
     (if uint_of_int v = 0 then Inl (Usage (usage_fmt argv0) 64) else Inr (uint_of_int v))"
  by (simp add: Let_def)

lemma atoi_range: "atoi str = Some v \<Longrightarrow> - (2 ^ 31) \<le> v \<and> v < 2 ^ 31"
  by (auto simp: atoi_def Let_def split: if_splits)

lemma uint_of_int_pos: "0 < v \<Longrightarrow> v < 2 ^ 31 \<Longrightarrow> uint_of_int v = nat v"
  by (simp add: uint_of_int_def)

section \<open>The program on the counting library\<close>

lemma counting_sample:
  "prior_Gauss_params_sample counting_GSL r = (\<lparr>mu = real r, sigma = Finite 1\<rparr>, r + 2)"
  by (simp add: prior_Gauss_params_sample_def counting_GSL_def sigma_of_precision_def)

lemma counting_mixture_sample:
  "prior_Gauss_mixture_params_sample counting_GSL r =
     (\<lparr>mixCof = 1 / 2, Gauss1 = \<lparr>mu = real (r + 1), sigma = Finite 1\<rparr>,
       Gauss2 = \<lparr>mu = real (r + 3), sigma = Finite 1\<rparr>\<rparr>, r + 5)"
  by (simp add: prior_Gauss_mixture_params_sample_def counting_sample)
    (simp add: counting_GSL_def)

lemma counting_pdf:
  "GSLfun_ran_gaussian_pdf counting_GSL x p = (if mu p = 0 then 1 else 0)"
  by (simp add: counting_GSL_def)

lemma counting_state_after1:
  "state_after (prior_Gauss_params_sample counting_GSL) n r = r + 2 * n"
  by (induction n arbitrary: r) (simp_all add: counting_sample)

lemma counting_state_after2:
  "state_after (prior_Gauss_mixture_params_sample counting_GSL) n r = r + 5 * n"
  by (induction n arbitrary: r) (simp_all add: counting_mixture_sample)

lemma prod_list_const: "(\<Prod>x\<leftarrow>xs. (c::real)) = c ^ length xs"
  by (induction xs) simp_all

lemma counting_product:
  "xs \<noteq> [] \<Longrightarrow>
   (\<Prod>x\<leftarrow>xs. GSLfun_ran_gaussian_pdf counting_GSL x p) = (if mu p = 0 then 1 else 0)"
  by (simp add: counting_pdf prod_list_const)

lemma counting_draws1_pos:
  assumes "xs \<noteq> []"
  shows "0 < r \<Longrightarrow> (\<Sum>p\<leftarrow>draws (prior_Gauss_params_sample counting_GSL) n r.
                 \<Prod>x\<leftarrow>xs. GSLfun_ran_gaussian_pdf counting_GSL x p) = 0"
  by (induction n arbitrary: r) (simp_all add: counting_sample counting_product [OF assms])

lemma counting_draws1_zero:
  assumes "xs \<noteq> []"
  shows "(\<Sum>p\<leftarrow>draws (prior_Gauss_params_sample counting_GSL) (Suc n) 0.
                 \<Prod>x\<leftarrow>xs. GSLfun_ran_gaussian_pdf counting_GSL x p) = 1"
  using counting_draws1_pos [OF assms, of 2 n]
  by (simp add: counting_sample counting_product [OF assms] numeral_2_eq_2)

lemma counting_mixture_product:
  "xs \<noteq> [] \<Longrightarrow>
   (\<Prod>x\<leftarrow>xs. ((1 - mixCof p) * GSLfun_ran_gaussian_pdf counting_GSL x (Gauss2 p)
                     + mixCof p * GSLfun_ran_gaussian_pdf counting_GSL x (Gauss1 p))) =
   ((1 - mixCof p) * (if mu (Gauss2 p) = 0 then 1 else 0)
      + mixCof p * (if mu (Gauss1 p) = 0 then 1 else 0)) ^ length xs"
  by (simp add: counting_pdf prod_list_const)

lemma counting_draws2:
  assumes "xs \<noteq> []"
  shows "(\<Sum>p\<leftarrow>draws (prior_Gauss_mixture_params_sample counting_GSL) n r.
                 \<Prod>x\<leftarrow>xs. ((1 - mixCof p) * GSLfun_ran_gaussian_pdf counting_GSL x (Gauss2 p)
                     + mixCof p * GSLfun_ran_gaussian_pdf counting_GSL x (Gauss1 p))) = 0"
  using assms
  by (induction n arbitrary: r)
    (simp_all add: counting_mixture_sample counting_mixture_product [OF assms])

lemma counting_bySampling1:
  assumes "wf_state st"
  shows "data_prob_1component_bySampling counting_GSL st =
           (if rng st = 0 then 1 / 2000000 else 0, st\<lparr>rng := rng st + 4000000\<rparr>)"
proof -
  have n: "sampleRepeatNum = Suc 1999999"
    by (simp add: sampleRepeatNum_def)
  note ne = wf_state_data_ne [OF assms]
  show ?thesis
  proof (cases "rng st = 0")
    case True
    then show ?thesis
      using counting_draws1_zero [OF ne, of 1999999]
      by (simp add: bySampling1_data [OF assms] counting_state_after1 n del: draws.simps)
  next
    case False
    then show ?thesis
      using counting_draws1_pos [OF ne, of "rng st" "Suc 1999999"]
      by (simp add: bySampling1_data [OF assms] counting_state_after1 n del: draws.simps)
  qed
qed

lemma counting_bySampling2:
  assumes "wf_state st"
  shows "data_prob_2component_bySampling counting_GSL st = (0, st\<lparr>rng := rng st + 10000000\<rparr>)"
  using counting_draws2 [OF wf_state_data_ne [OF assms], of sampleRepeatNum "rng st"]
  by (simp add: bySampling2_data [OF assms] counting_state_after2)
    (simp add: sampleRepeatNum_def)


lemma sum_list_zero: "(\<And>x. x \<in> set xs \<Longrightarrow> f x = (0::real)) \<Longrightarrow> (\<Sum>x\<leftarrow>xs. f x) = 0"
  by (induction xs) simp_all

lemma counting_bySumming1:
  assumes "nonzero_means st"
  shows "data_prob_1component_bySumming counting_GSL st = (0, st)"
proof -
  from assms have wf: "wf_state st" and nz: "0 \<notin> set (cdfInv_Gauss st)"
    by (simp_all add: nonzero_means_def)
  have "(\<Sum>m\<leftarrow>cdfInv_Gauss st. \<Sum>prec\<leftarrow>cdfInv_gamma st. \<Prod>x\<leftarrow>data st.
           GSLfun_ran_gaussian_pdf counting_GSL x \<lparr>mu = m, sigma = sigma_of_precision prec\<rparr>) = 0"
    using nz
    by (intro sum_list_zero) (auto simp: counting_product [OF wf_state_data_ne [OF wf]])
  then have "fst (data_prob_1component_bySumming counting_GSL st) = 0"
    by (simp add: bySumming1_closed [OF wf] sum_list_product)
  then show ?thesis
    using bySumming1_frame [of counting_GSL st] by (simp add: prod_eq_iff)
qed

lemma counting_bySumming2:
  assumes "nonzero_means st"
  shows "data_prob_2component_bySumming counting_GSL st = (0, st)"
proof -
  from assms have wf: "wf_state st" and nz: "0 \<notin> set (cdfInv_Gauss st)"
    by (simp_all add: nonzero_means_def)
  have ne: "0 < length (data st)"
    using wf_state_data_ne [OF wf] by simp
  have "(\<Sum>m1\<leftarrow>cdfInv_Gauss st. \<Sum>m2\<leftarrow>cdfInv_Gauss st. \<Sum>prec1\<leftarrow>cdfInv_gamma st.
          \<Sum>prec2\<leftarrow>cdfInv_gamma st. \<Sum>w\<leftarrow>cdfInv_JBeta st. \<Prod>x\<leftarrow>data st.
           w * GSLfun_ran_gaussian_pdf counting_GSL x \<lparr>mu = m1, sigma = sigma_of_precision prec1\<rparr>
           + (1 - w) * GSLfun_ran_gaussian_pdf counting_GSL x
                         \<lparr>mu = m2, sigma = sigma_of_precision prec2\<rparr>) = 0"
    using nz ne
    by (intro sum_list_zero) (auto simp: counting_pdf prod_list_const)
  then have "fst (data_prob_2component_bySumming counting_GSL st) = 0"
    by (simp add: bySumming2_closed [OF wf] sum_list_product)
  then show ?thesis
    using bySumming2_frame [of counting_GSL st] by (simp add: prod_eq_iff)
qed

lemma nonzero_means_rng [simp]: "nonzero_means (st\<lparr>rng := r\<rparr>) = nonzero_means st"
  by (simp add: nonzero_means_def)

lemma counting_trial_estimates:
  assumes "nonzero_means st" and "0 < rng st"
  shows "trial_estimates counting_GSL st = (all_zero, st\<lparr>rng := rng st + 14000000\<rparr>)"
proof -
  from assms have wf: "wf_state st"
    by (simp add: nonzero_means_def)
  show ?thesis
    using assms
    by (simp add: trial_estimates_def counting_bySampling1 counting_bySampling2 wf
        counting_bySumming1 counting_bySumming2 all_zero_def)
qed

lemma nonzero_means_generated:
  "nonzero_means s \<Longrightarrow> generated s s' \<Longrightarrow> nonzero_means s'"
  by (simp add: nonzero_means_def generated_def wf_state_def)

lemma counting_model1_estimates:
  assumes "nonzero_means s"
  shows "fst (model1_estimates counting_GSL s) = all_zero
         \<and> nonzero_means (snd (model1_estimates counting_GSL s))"
proof -
  define s1 where
    "s1 = data_generate_1component counting_GSL \<lparr>mu = real (rng s), sigma = Finite 1\<rparr>
            (s\<lparr>rng := rng s + 2\<rparr>)"
  have "nonzero_means s1"
    unfolding s1_def
    by (rule nonzero_means_generated [OF _ generated_1component]) (simp add: assms)
  moreover have "0 < rng s1"
    unfolding s1_def
    using counting_generate1_rng [of "s\<lparr>rng := rng s + 2\<rparr>" "\<lparr>mu = real (rng s), sigma = Finite 1\<rparr>"]
    by simp
  moreover have "model1_estimates counting_GSL s = trial_estimates counting_GSL s1"
    by (simp add: model1_estimates_def s1_def counting_sample)
  ultimately show ?thesis
    by (simp add: counting_trial_estimates)
qed

lemma counting_model2_estimates:
  assumes "nonzero_means s"
  shows "fst (model2_estimates counting_GSL s) = all_zero
         \<and> nonzero_means (snd (model2_estimates counting_GSL s))"
proof -
  define p where "p = fst (prior_Gauss_mixture_params_sample counting_GSL (rng s))"
  define s1 where "s1 = data_generate_2component counting_GSL p (s\<lparr>rng := rng s + 5\<rparr>)"
  have "nonzero_means s1"
    unfolding s1_def
    by (rule nonzero_means_generated [OF _ generated_2component]) (simp add: assms)
  moreover have "0 < rng s1"
    unfolding s1_def
    using counting_generate2_rng [of "s\<lparr>rng := rng s + 5\<rparr>" p]
    by simp
  moreover have "model2_estimates counting_GSL s = trial_estimates counting_GSL s1"
    by (simp add: model2_estimates_def s1_def p_def counting_mixture_sample)
  ultimately show ?thesis
    by (simp add: counting_trial_estimates)
qed

lemma counting_trials:
  assumes "\<And>s. nonzero_means s \<Longrightarrow> fst (est s) = all_zero \<and> nonzero_means (snd (est s))"
  shows "nonzero_means s \<Longrightarrow>
         draws est n s = replicate n all_zero \<and> nonzero_means (state_after est n s)"
  by (induction n arbitrary: s) (simp_all add: assms)

lemma counting_start:
  "nonzero_means (cdfInv_precompute counting_GSL
                    ((init_state 0)\<lparr>rng := GSLfun_setup counting_GSL (rng (init_state 0))\<rparr>))"
proof -
  have wf: "wf_state ((init_state 0)\<lparr>rng := GSLfun_setup counting_GSL (rng (init_state 0))\<rparr>)"
    by (simp add: wf_state_init)
  show ?thesis
    unfolding nonzero_means_def
    by (simp add: wf_state_cdfInv_precompute [OF wf] precompute_fields(1) [OF wf])
      (auto simp: counting_GSL_def)
qed

lemma counting_main:
  assumes "main_args argv = Inr n"
  shows "fst (main counting_GSL argv (init_state 0)) =
           Inr \<lparr>integrals_model1 = replicate n all_zero, integrals_model2 = replicate n all_zero,
                sampling_model1 = (0, n), sampling_model2 = (n, n),
                summing_model1 = (0, n), summing_model2 = (n, n)\<rparr>"
proof -
  define s0 where "s0 = cdfInv_precompute counting_GSL
                    ((init_state 0)\<lparr>rng := GSLfun_setup counting_GSL (rng (init_state 0))\<rparr>)"
  have one: "draws (model1_estimates counting_GSL) n s0 = replicate n all_zero"
    and s1: "nonzero_means (state_after (model1_estimates counting_GSL) n s0)"
    using counting_trials [of "model1_estimates counting_GSL" s0 n, OF counting_model1_estimates]
      counting_start
    by (simp_all add: s0_def)
  have two: "draws (model2_estimates counting_GSL) n
               (state_after (model1_estimates counting_GSL) n s0) = replicate n all_zero"
    using counting_trials [of "model2_estimates counting_GSL" _ n, OF counting_model2_estimates s1]
    by simp
  show ?thesis
    by (simp add: main_closed [OF assms] Let_def s0_def [symmetric] one two)
      (simp add: all_zero_def)
qed

section \<open>The claims\<close>

text \<open>
  C1. For a data set of 40 numbers, the one-component Riemann sum returns the sum, over
  every pair of a mean from the grid of 20 means and a precision from the grid of 10
  precisions, of the product over the 40 observations of the density at the observation
  under that mean and the scale \<open>sigma_of_precision\<close> of that precision, divided by the
  number \<open>20 * 10\<close> of cells.
\<close>

theorem data_prob_1component_bySumming_sum:
  assumes "wf_state st"
  shows "fst (data_prob_1component_bySumming E st) =
           (\<Sum>(m, prec)\<leftarrow>List.product (cdfInv_Gauss st) (cdfInv_gamma st).
              \<Prod>x\<leftarrow>data st.
                GSLfun_ran_gaussian_pdf E x \<lparr>mu = m, sigma = sigma_of_precision prec\<rparr>)
           / (20 * 10)
         \<and> length (cdfInv_Gauss st) = 20 \<and> length (cdfInv_gamma st) = 10
         \<and> length (data st) = 40"
  using assms bySumming1_closed [OF assms, of E]
  by (simp add: wf_state_def CDF_GAUSS_N_def CDF_GAMMA_N_def DATA_N_def)

theorem data_prob_1component_bySumming_sum_witness:
  "wf_state (init_state (0::nat)) \<and>
   fst (data_prob_1component_bySumming counting_GSL (init_state 0)) = 1"
  using data_prob_1component_bySumming_sum [of "init_state (0::nat)" counting_GSL]
  by (simp add: wf_state_init sum_list_product)
    (simp add: init_state_def counting_GSL_def CDF_GAUSS_N_def CDF_GAMMA_N_def DATA_N_def
       sum_list_replicate)

text \<open>
  C2. For a data set of 40 numbers, the two-component Riemann sum returns the sum, over
  the whole cross product of two means, two precisions and a weight from the grids of 20
  means, 10 precisions and 40 weights, of the product over the 40 observations of the
  mixture density \<open>w * density1 + (1 - w) * density2\<close>, divided by the number
  \<open>20 * 20 * 10 * 10 * 40\<close> of cells.
\<close>

theorem data_prob_2component_bySumming_sum:
  assumes "wf_state st"
  shows "fst (data_prob_2component_bySumming E st) =
           (\<Sum>(m1, m2, prec1, prec2, w)\<leftarrow>
                List.product (cdfInv_Gauss st) (List.product (cdfInv_Gauss st)
                  (List.product (cdfInv_gamma st)
                    (List.product (cdfInv_gamma st) (cdfInv_JBeta st)))).
              \<Prod>x\<leftarrow>data st.
                w * GSLfun_ran_gaussian_pdf E x \<lparr>mu = m1, sigma = sigma_of_precision prec1\<rparr>
                + (1 - w)
                  * GSLfun_ran_gaussian_pdf E x \<lparr>mu = m2, sigma = sigma_of_precision prec2\<rparr>)
           / (20 * 20 * 10 * 10 * 40)
         \<and> length (cdfInv_Gauss st) = 20 \<and> length (cdfInv_gamma st) = 10
         \<and> length (cdfInv_JBeta st) = 40 \<and> length (data st) = 40"
  using assms bySumming2_closed [OF assms, of E]
  by (simp add: wf_state_def CDF_GAUSS_N_def CDF_GAMMA_N_def CDF_JBETA_N_def DATA_N_def)

theorem data_prob_2component_bySumming_sum_witness:
  "wf_state (init_state (0::nat)) \<and>
   fst (data_prob_2component_bySumming counting_GSL (init_state 0)) = 1"
  using data_prob_2component_bySumming_sum [of "init_state (0::nat)" counting_GSL]
  by (simp add: wf_state_init sum_list_product)
    (simp add: init_state_def counting_GSL_def CDF_GAUSS_N_def CDF_GAMMA_N_def DATA_N_def
       CDF_JBETA_N_def sum_list_replicate)

text \<open>
  C3. Either estimate by sampling runs 2000000 iterations; each iteration draws one
  parameter set from its model's prior sampler, takes the product of the densities of
  all observations under it, and adds it up; the estimate is that sum divided by
  2000000. The parameter sets are those of 2000000 successive calls of the sampler,
  starting from the generator's state at the call.
\<close>

theorem data_prob_bySampling_mean:
  assumes "wf_state st"
  shows "fst (data_prob_1component_bySampling E st) =
           (\<Sum>params\<leftarrow>draws (prior_Gauss_params_sample E) 2000000 (rng st).
              \<Prod>x\<leftarrow>data st. GSLfun_ran_gaussian_pdf E x params) / 2000000
         \<and> fst (data_prob_2component_bySampling E st) =
           (\<Sum>params\<leftarrow>draws (prior_Gauss_mixture_params_sample E) 2000000 (rng st).
              \<Prod>x\<leftarrow>data st.
                ((1 - mixCof params) * GSLfun_ran_gaussian_pdf E x (Gauss2 params)
                 + mixCof params * GSLfun_ran_gaussian_pdf E x (Gauss1 params))) / 2000000
         \<and> sampleRepeatNum = 2000000 \<and> length (data st) = 40"
  using assms
  by (simp add: bySampling1_data bySampling2_data)
    (simp add: sampleRepeatNum_def wf_state_def DATA_N_def)

theorem data_prob_bySampling_mean_witness:
  "wf_state (init_state (0::nat))
   \<and> fst (data_prob_1component_bySampling counting_GSL (init_state 0)) = 1 / 2000000
   \<and> fst (data_prob_2component_bySampling counting_GSL (init_state 0)) = 0"
proof -
  have ne: "data (init_state (0::nat)) \<noteq> []"
    by (simp add: init_state_def DATA_N_def)
  have rng0: "rng (init_state (0::nat)) = 0"
    by (simp add: init_state_def)
  have "(2000000::nat) = Suc 1999999" by simp
  then show ?thesis
    using data_prob_bySampling_mean [OF wf_state_init [of "0::nat"], of counting_GSL]
      counting_draws1_zero [OF ne, of 1999999] counting_draws2 [OF ne, of 2000000 0]
    by (simp add: wf_state_init rng0 del: draws.simps)
qed

text \<open>
  C4. The grid builder puts the 20 nodes of the mean grid at the quantiles of the mean
  prior (the zero-mean Gaussian of scale 4) at the probabilities \<open>1/21, \<dots>, 20/21\<close>, all
  strictly between 0 and 1, and the 10 nodes of the precision grid at the quantiles of
  the Gamma prior at the probabilities \<open>0/10, \<dots>, 9/10\<close>. The Riemann sum turns each
  precision into a scale with \<open>sigma_of_precision\<close>, which is \<open>1 / sqrt precision\<close>.
\<close>

theorem cdfInv_precompute_quantiles:
  assumes "wf_state s"
  shows "cdfInv_Gauss (cdfInv_precompute E s) =
           map (\<lambda>k. gsl_cdf_gaussian_Pinv E (real k / (20 + 1)) (Finite 4)) [1..<20 + 1]
         \<and> (\<forall>k\<in>set [1..<20 + 1]. 0 < real k / (20 + 1) \<and> real k / (20 + 1) < (1::real))
         \<and> cdfInv_gamma (cdfInv_precompute E s) =
           map (\<lambda>i. gsl_cdf_gamma_Pinv E (real i / 10) 0.5 2.0) [0..<10]
         \<and> fst (data_prob_1component_bySumming E (cdfInv_precompute E s)) =
           (\<Sum>(m, prec)\<leftarrow>List.product (cdfInv_Gauss (cdfInv_precompute E s))
                                      (cdfInv_gamma (cdfInv_precompute E s)).
              \<Prod>x\<leftarrow>data s.
                GSLfun_ran_gaussian_pdf E x \<lparr>mu = m, sigma = sigma_of_precision prec\<rparr>)
           / (20 * 10)
         \<and> (\<forall>prec. 0 < prec \<longrightarrow> sigma_of_precision prec = Finite (1 / sqrt prec))
         \<and> sigma_of_precision 0 = PosInf"
proof -
  have "cdfInv_Gauss (cdfInv_precompute E s) =
           map (\<lambda>k. gsl_cdf_gaussian_Pinv E (real k / (20 + 1)) (Finite 4)) [1..<20 + 1]"
    using map_from_one [of "\<lambda>k. gsl_cdf_gaussian_Pinv E (real k / (20 + 1)) (Finite 4)" 20]
    by (simp add: precompute_fields(1) [OF assms])
  moreover have "\<forall>k\<in>set [1..<20 + 1]. 0 < real k / (20 + 1) \<and> real k / (20 + 1) < (1::real)"
    by simp
  moreover have "fst (data_prob_1component_bySumming E (cdfInv_precompute E s)) =
           (\<Sum>(m, prec)\<leftarrow>List.product (cdfInv_Gauss (cdfInv_precompute E s))
                                      (cdfInv_gamma (cdfInv_precompute E s)).
              \<Prod>x\<leftarrow>data s.
                GSLfun_ran_gaussian_pdf E x \<lparr>mu = m, sigma = sigma_of_precision prec\<rparr>)
           / (20 * 10)"
    using bySumming1_closed [OF wf_state_cdfInv_precompute [OF assms], of E E]
    by (simp add: precompute_fields(4) [OF assms] CDF_GAUSS_N_def CDF_GAMMA_N_def)
  ultimately show ?thesis
    by (simp add: precompute_fields(2) [OF assms] sigma_of_precision_def)
qed

theorem cdfInv_precompute_quantiles_witness:
  "wf_state (init_state (0::nat))
   \<and> cdfInv_Gauss (cdfInv_precompute counting_GSL (init_state 0)) ! 0 = 4 / 21
   \<and> cdfInv_Gauss (cdfInv_precompute counting_GSL (init_state 0)) ! 19 = 80 / 21
   \<and> cdfInv_gamma (cdfInv_precompute counting_GSL (init_state 0)) ! 0 = 0
   \<and> cdfInv_gamma (cdfInv_precompute counting_GSL (init_state 0)) ! 9 = 9 / 10"
  using cdfInv_precompute_quantiles [OF wf_state_init [of "0::nat"], of counting_GSL]
  by (simp add: wf_state_init gsl_cdf_gamma_Pinv_def counting_GSL_def)

text \<open>
  C5. The grid of mixing weights holds the quantiles of the Beta(0.5, 0.5) prior at the
  40 probabilities \<open>0.5 * i / 40\<close>, \<open>i = 0, \<dots>, 39\<close>, all in the half range \<open>[0, 0.5)\<close>.
  The two-component Riemann sum adds one term for each of these 40 weights \<open>w\<close>
  (none for \<open>1 - w\<close>) and divides by the full number \<open>20 * 20 * 10 * 10 * 40\<close> of
  cells, with no factor 2.
\<close>

theorem cdfInv_JBeta_half_range:
  assumes "wf_state s"
  shows "cdfInv_JBeta (cdfInv_precompute E s) =
           map (\<lambda>i. gsl_cdf_beta_Pinv E (0.5 * real i / 40) 0.5 0.5) [0..<40]
         \<and> (\<forall>i\<in>set [0..<40]. 0 \<le> 0.5 * real i / 40 \<and> 0.5 * real i / 40 < (0.5::real))
         \<and> fst (data_prob_2component_bySumming E (cdfInv_precompute E s)) =
           (\<Sum>(m1, m2, prec1, prec2, w)\<leftarrow>
                List.product (cdfInv_Gauss (cdfInv_precompute E s))
                  (List.product (cdfInv_Gauss (cdfInv_precompute E s))
                    (List.product (cdfInv_gamma (cdfInv_precompute E s))
                      (List.product (cdfInv_gamma (cdfInv_precompute E s))
                        (map (\<lambda>i. gsl_cdf_beta_Pinv E (0.5 * real i / 40) 0.5 0.5) [0..<40])))).
              \<Prod>x\<leftarrow>data s.
                w * GSLfun_ran_gaussian_pdf E x \<lparr>mu = m1, sigma = sigma_of_precision prec1\<rparr>
                + (1 - w)
                  * GSLfun_ran_gaussian_pdf E x \<lparr>mu = m2, sigma = sigma_of_precision prec2\<rparr>)
           / (20 * 20 * 10 * 10 * 40)"
proof -
  have "\<forall>i\<in>set [0..<40]. 0 \<le> 0.5 * real i / 40 \<and> 0.5 * real i / 40 < (0.5::real)"
    by simp
  then show ?thesis
    using bySumming2_closed [OF wf_state_cdfInv_precompute [OF assms], of E E]
    by (simp add: precompute_fields(3,4) [OF assms] CDF_GAUSS_N_def CDF_GAMMA_N_def
        CDF_JBETA_N_def)
qed

theorem cdfInv_JBeta_half_range_witness:
  "wf_state (init_state (0::nat))
   \<and> cdfInv_JBeta (cdfInv_precompute counting_GSL (init_state 0)) ! 0 = 0
   \<and> cdfInv_JBeta (cdfInv_precompute counting_GSL (init_state 0)) ! 39 = 39 / 80"
  using cdfInv_JBeta_half_range [OF wf_state_init [of "0::nat"], of counting_GSL]
  by (simp add: wf_state_init counting_GSL_def)

text \<open>
  C10. For every weight, every pair of Gaussian parameters and every observation, the
  mixture density of the Riemann sum, \<open>w * density1 + (1 - w) * density2\<close>, equals that
  of the sampling estimate, \<open>(1 - w) * density2 + w * density1\<close>; so do their products
  over the data set.
\<close>

theorem newProb_bySumming_bySampling:
  "newProb_bySumming E w g1 g2 x
     = newProb_bySampling E \<lparr>mixCof = w, Gauss1 = g1, Gauss2 = g2\<rparr> x
   \<and> for_uint 0 dataN
       (\<lambda>d curProb. curProb * newProb_bySumming E w g1 g2 (data st ! d)) 1
     = for_uint 0 dataN
         (\<lambda>i curProb. curProb
            * newProb_bySampling E \<lparr>mixCof = w, Gauss1 = g1, Gauss2 = g2\<rparr> (data st ! i)) 1"
  by (simp add: newProb_bySumming_def newProb_bySampling_def add.commute)

text \<open>
  C6 (amended). Every scale that \<open>sigma_of_precision\<close> makes from a positive precision
  is the positive real number \<open>1 / sqrt precision\<close>. When the library's Gamma deviates
  are positive, every parameter set drawn by the prior samplers has such a scale; when
  its Gamma quantiles inside \<open>(0, 1)\<close> are positive, so has every grid cell at the
  probabilities \<open>1/10, \<dots>, 9/10\<close>. The grid cell at probability 0 has precision 0, and
  its scale is \<open>1/sqrt(0)\<close>, that is \<open>+inf\<close>: not a positive real number.
\<close>

theorem scale_positive_finite:
  assumes deviates: "\<And>a b r. 0 < fst (GSLfun_ran_gamma E a b r)"
    and quantiles: "\<And>P a b. 0 < P \<Longrightarrow> P < 1 \<Longrightarrow> 0 < cdf_gamma_Pinv E P a b"
    and wf: "wf_state s"
  shows "(\<forall>prec. 0 < prec \<longrightarrow>
            sigma_of_precision prec = Finite (1 / sqrt prec) \<and> 0 < 1 / sqrt prec)
         \<and> positive_finite (sigma (fst (prior_Gauss_params_sample E r)))
         \<and> positive_finite (sigma (Gauss1 (fst (prior_Gauss_mixture_params_sample E r))))
         \<and> positive_finite (sigma (Gauss2 (fst (prior_Gauss_mixture_params_sample E r))))
         \<and> (\<forall>i\<in>set [1..<10].
              positive_finite (sigma_of_precision (cdfInv_gamma (cdfInv_precompute E s) ! i)))
         \<and> cdfInv_gamma (cdfInv_precompute E s) ! 0 = 0
         \<and> sigma_of_precision (cdfInv_gamma (cdfInv_precompute E s) ! 0) = PosInf"
proof -
  have grid: "positive_finite (sigma_of_precision (cdfInv_gamma (cdfInv_precompute E s) ! i))"
    if "i \<in> set [1..<10]" for i
  proof -
    from that have i: "0 < i" "i < 10" by simp_all
    then have "0 < real i / 10" "real i / 10 < 1" by simp_all
    then have "0 < cdf_gamma_Pinv E (real i / 10) 0.5 2.0"
      by (rule quantiles)
    with i show ?thesis
      by (simp add: precompute_fields(2) [OF wf] gsl_cdf_gamma_Pinv_def
          positive_finite_sigma_of_precision)
  qed
  have zero: "cdfInv_gamma (cdfInv_precompute E s) ! 0 = 0"
    by (simp add: precompute_fields(2) [OF wf] gsl_cdf_gamma_Pinv_def)
  show ?thesis
    using grid zero
    by (simp add: sigma_prior_sample sigma_mixture_sample positive_finite_sigma_of_precision
        deviates) (simp add: sigma_of_precision_def)
qed

theorem scale_positive_finite_witness:
  "wf_state (init_state (0::nat))
   \<and> positive_finite (sigma (fst (prior_Gauss_params_sample counting_GSL 0)))
   \<and> positive_finite (sigma_of_precision
        (cdfInv_gamma (cdfInv_precompute counting_GSL (init_state 0)) ! 9))
   \<and> sigma_of_precision (cdfInv_gamma (cdfInv_precompute counting_GSL (init_state 0)) ! 0)
       = PosInf"
proof -
  have deviates: "\<And>a b r. 0 < fst (GSLfun_ran_gamma counting_GSL a b r)"
    by (simp add: counting_GSL_def)
  have quantiles: "\<And>P a b. 0 < P \<Longrightarrow> P < 1 \<Longrightarrow> 0 < cdf_gamma_Pinv counting_GSL P a b"
    by (simp add: counting_GSL_def)
  show ?thesis
    using scale_positive_finite [of counting_GSL "init_state 0" 0, OF deviates quantiles
        wf_state_init]
    by (auto simp: wf_state_init)
qed

text \<open>The claim as it stands fails at the first cell of the precision grid.\<close>

theorem scale_positive_finite_counterexample:
  "\<not> positive_finite
       (sigma_of_precision (cdfInv_gamma (cdfInv_precompute counting_GSL (init_state 0)) ! 0))"
  by (simp add: precompute_fields(2) [OF wf_state_init] gsl_cdf_gamma_Pinv_def
      sigma_of_precision_def positive_finite_def)

text \<open>
  C9 (amended). The two Riemann sums are functions of the data set and the grids: they
  leave the whole state as it is, return the same value when called again, and do not
  depend on the generator. The two estimates by sampling leave the data set and the
  grids as they are and do not depend on the grids, but they advance the generator by
  2000000 calls of their prior sampler; their value is a function of the data set and of
  the generator's state at the call.
\<close>

theorem estimators_frame:
  "snd (data_prob_1component_bySumming E st) = st
   \<and> snd (data_prob_2component_bySumming E st) = st
   \<and> fst (data_prob_1component_bySumming E (snd (data_prob_1component_bySumming E st)))
       = fst (data_prob_1component_bySumming E st)
   \<and> fst (data_prob_2component_bySumming E (snd (data_prob_2component_bySumming E st)))
       = fst (data_prob_2component_bySumming E st)
   \<and> fst (data_prob_1component_bySumming E (st\<lparr>rng := r\<rparr>))
       = fst (data_prob_1component_bySumming E st)
   \<and> fst (data_prob_2component_bySumming E (st\<lparr>rng := r\<rparr>))
       = fst (data_prob_2component_bySumming E st)
   \<and> snd (data_prob_1component_bySampling E st)
       = st\<lparr>rng := state_after (prior_Gauss_params_sample E) sampleRepeatNum (rng st)\<rparr>
   \<and> snd (data_prob_2component_bySampling E st)
       = st\<lparr>rng := state_after (prior_Gauss_mixture_params_sample E) sampleRepeatNum (rng st)\<rparr>
   \<and> fst (data_prob_1component_bySampling E
            (st\<lparr>cdfInv_Gauss := g, cdfInv_gamma := h, cdfInv_JBeta := j\<rparr>))
       = fst (data_prob_1component_bySampling E st)
   \<and> fst (data_prob_2component_bySampling E
            (st\<lparr>cdfInv_Gauss := g, cdfInv_gamma := h, cdfInv_JBeta := j\<rparr>))
       = fst (data_prob_2component_bySampling E st)"
  by (simp add: bySumming1_frame bySumming2_frame bySumming1_rng bySumming2_rng
      bySampling1_closed bySampling2_closed)

text \<open>On the counting library, a second call of the one-component estimate by sampling
  returns another value than the first, and the first call has moved the generator.\<close>

theorem estimators_frame_counterexample:
  "fst (data_prob_1component_bySampling counting_GSL
          (snd (data_prob_1component_bySampling counting_GSL (init_state 0))))
     \<noteq> fst (data_prob_1component_bySampling counting_GSL (init_state 0))
   \<and> snd (data_prob_1component_bySampling counting_GSL (init_state 0)) \<noteq> init_state 0
   \<and> fst (data_prob_1component_bySampling counting_GSL (init_state 0)) = 1 / 2000000
   \<and> fst (data_prob_1component_bySampling counting_GSL
            (snd (data_prob_1component_bySampling counting_GSL (init_state 0)))) = 0
   \<and> rng (snd (data_prob_1component_bySampling counting_GSL (init_state 0))) = 4000000"
proof -
  have "rng (init_state (0::nat)) = 0"
    by (simp add: init_state_def)
  moreover have "s\<lparr>rng := 4000000\<rparr> \<noteq> s" if "rng s = 0" for s :: "nat state"
  proof
    assume "s\<lparr>rng := 4000000\<rparr> = s"
    then have "rng (s\<lparr>rng := 4000000\<rparr>) = rng s" by simp
    with that show False by simp
  qed
  ultimately show ?thesis
    by (simp add: counting_bySampling1 wf_state_init)
qed

text \<open>
  C7 (amended). In every trial and for either family of estimates, the driver takes the
  one-component model as selected exactly when its estimate is strictly higher than
  that of the two-component model, and the two-component model otherwise. For data
  generated with one component a trial is a correct selection exactly when the
  one-component estimate is strictly higher; for data generated with two components it
  is one exactly when the two-component estimate is higher or equal, so that a tie
  counts as correct. After all trials the program reports, for either ground-truth model
  and either family, the number of correct selections and the number of trials.
\<close>

theorem main_correct_selections:
  assumes "main_args argv = Inr n"
  shows "let s0 = cdfInv_precompute E (s\<lparr>rng := GSLfun_setup E (rng s)\<rparr>);
             es1 = draws (model1_estimates E) n s0;
             es2 = draws (model2_estimates E) n (state_after (model1_estimates E) n s0)
         in fst (main E argv s) =
              Inr \<lparr>integrals_model1 = es1, integrals_model2 = es2,
                   sampling_model1 =
                     (length (filter (\<lambda>e. prob_data1_bySampling e > prob_data2_bySampling e) es1), n),
                   sampling_model2 =
                     (length (filter (\<lambda>e. prob_data2_bySampling e \<ge> prob_data1_bySampling e) es2), n),
                   summing_model1 =
                     (length (filter (\<lambda>e. prob_data1_bySumming e > prob_data2_bySumming e) es1), n),
                   summing_model2 =
                     (length (filter (\<lambda>e. prob_data2_bySumming e \<ge> prob_data1_bySumming e) es2), n)\<rparr>
            \<and> length es1 = n \<and> length es2 = n"
  by (simp add: main_closed [OF assms] Let_def length_draws)

theorem main_correct_selections_witness:
  "main_args [''Gaussian_poolOrNot''] = Inr 10
   \<and> fst (main counting_GSL [''Gaussian_poolOrNot''] (init_state 0)) =
       Inr \<lparr>integrals_model1 = replicate 10 all_zero, integrals_model2 = replicate 10 all_zero,
            sampling_model1 = (0, 10), sampling_model2 = (10, 10),
            summing_model1 = (0, 10), summing_model2 = (10, 10)\<rparr>"
proof -
  define s0 where "s0 = cdfInv_precompute counting_GSL
                    ((init_state 0)\<lparr>rng := GSLfun_setup counting_GSL (rng (init_state 0))\<rparr>)"
  have one: "draws (model1_estimates counting_GSL) 10 s0 = replicate 10 all_zero"
    and s1: "nonzero_means (state_after (model1_estimates counting_GSL) 10 s0)"
    using counting_trials [of "model1_estimates counting_GSL" s0 10, OF counting_model1_estimates]
      counting_start
    by (simp_all add: s0_def)
  have two: "draws (model2_estimates counting_GSL) 10
               (state_after (model1_estimates counting_GSL) 10 s0) = replicate 10 all_zero"
    using counting_trials [of "model2_estimates counting_GSL" _ 10, OF counting_model2_estimates s1]
    by simp
  have args: "main_args [''Gaussian_poolOrNot''] = Inr 10"
    by simp
  show ?thesis
    using main_correct_selections [OF args, of counting_GSL "init_state 0"]
    by (simp add: Let_def s0_def [symmetric] one two) (simp add: all_zero_def)
qed

text \<open>One trial per model on the counting library: all four estimates are zero, the
  two-component estimate is not higher than the one-component estimate, and yet the
  trial with two-component data is reported as a correct selection.\<close>

theorem main_correct_selections_counterexample:
  "fst (main counting_GSL [''Gaussian_poolOrNot'', ''1''] (init_state 0)) =
     Inr \<lparr>integrals_model1 = [all_zero], integrals_model2 = [all_zero],
          sampling_model1 = (0, 1), sampling_model2 = (1, 1),
          summing_model1 = (0, 1), summing_model2 = (1, 1)\<rparr>
   \<and> \<not> prob_data2_bySampling all_zero > prob_data1_bySampling all_zero
   \<and> \<not> prob_data2_bySumming all_zero > prob_data1_bySumming all_zero"
proof -
  have "main_args [''Gaussian_poolOrNot'', ''1''] = Inr 1"
    by (simp add: atoi_def isspace_def isdigit_def digit_value_def uint_of_int_def)
  from counting_main [OF this] show ?thesis
    by (simp add: all_zero_def)
qed

text \<open>
  C8 (amended). The program takes at most one argument, the number of trials per
  ground-truth model, 10 when absent, and reads it with \<open>atoi\<close>. With more than one
  argument, or with an argument that \<open>atoi\<close> reads as 0, it prints the usage message and
  ends with exit status 64 before it computes anything (the state is as before). An
  argument that \<open>atoi\<close> reads as a positive number \<open>n\<close> is accepted and gives \<open>n\<close>
  trials; every positive integer below \<open>2 ^ 31\<close> is read as itself.
\<close>

theorem main_usage:
  "main_args [argv0] = Inr 10
   \<and> (atoi argv1 = Some 0 \<longrightarrow>
        main E [argv0, argv1] s = (Inl (Usage (usage_fmt argv0) 64), s))
   \<and> (atoi argv1 = Some v \<and> 0 < v \<longrightarrow>
        main_args [argv0, argv1] = Inr (nat v) \<and> \<not> isl (fst (main E [argv0, argv1] s)))
   \<and> (positive_integer argv1 \<and> decimal argv1 0 < 2 ^ 31 \<longrightarrow>
        atoi argv1 = Some (decimal argv1 0) \<and> 0 < decimal argv1 0)
   \<and> main E (argv0 # argv1 # argv2 # rest) s = (Inl (Usage (usage_fmt argv0) 64), s)"
proof -
  have zero: "main E [argv0, argv1] s = (Inl (Usage (usage_fmt argv0) 64), s)"
    if "atoi argv1 = Some 0"
    using that by (simp add: main_def uint_of_int_def)
  have pos: "main_args [argv0, argv1] = Inr (nat v) \<and> \<not> isl (fst (main E [argv0, argv1] s))"
    if "atoi argv1 = Some v" and "0 < v"
  proof -
    from atoi_range [OF that(1)] that(2) have u: "uint_of_int v = nat v" and "nat v \<noteq> 0"
      by (simp_all add: uint_of_int_pos)
    with that(1) have args: "main_args [argv0, argv1] = Inr (nat v)"
      by (simp add: Let_def)
    then show ?thesis
      by (simp add: main_closed [OF args] Let_def)
  qed
  have digits: "atoi argv1 = Some (decimal argv1 0) \<and> 0 < decimal argv1 0"
    if "positive_integer argv1" and "decimal argv1 0 < 2 ^ 31"
    using that atoi_digits [of argv1] by (simp add: positive_integer_def)
  have absent: "main_args [argv0] = Inr 10"
    by simp
  have many: "main E (argv0 # argv1 # argv2 # rest) s = (Inl (Usage (usage_fmt argv0) 64), s)"
    by (simp add: main_def)
  from absent zero pos digits many show ?thesis
    by blast
qed

theorem main_usage_witness:
  "atoi ''abc'' = Some 0
   \<and> main counting_GSL [''Gaussian_poolOrNot'', ''abc''] (init_state 0) =
       (Inl (Usage ''Usage: Gaussian_poolOrNot [num_datasets]\<newline>'' 64), init_state 0)
   \<and> positive_integer ''25''
   \<and> main_args [''Gaussian_poolOrNot'', ''25''] = Inr 25"
proof -
  have abc: "atoi ''abc'' = Some 0"
    by (simp add: atoi_def isspace_def isdigit_def)
  have n: "atoi ''25'' = Some 25"
    by (simp add: atoi_def isspace_def isdigit_def digit_value_def)
  have p: "positive_integer ''25''"
    by (simp add: positive_integer_def isdigit_def digit_value_def)
  show ?thesis
    using main_usage [of "''Gaussian_poolOrNot''" "''abc''" counting_GSL "init_state 0" 0]
      main_usage [of "''Gaussian_poolOrNot''" "''25''" counting_GSL "init_state 0" 25]
    by (simp add: abc n p usage_fmt_def)
qed

text \<open>The argument \<open>3x\<close> is not a positive integer, and the program runs three trials
  per model with it.\<close>

theorem main_usage_counterexample:
  "\<not> positive_integer ''3x''
   \<and> fst (main counting_GSL [''Gaussian_poolOrNot'', ''3x''] (init_state 0)) =
       Inr \<lparr>integrals_model1 = [all_zero, all_zero, all_zero],
            integrals_model2 = [all_zero, all_zero, all_zero],
            sampling_model1 = (0, 3), sampling_model2 = (3, 3),
            summing_model1 = (0, 3), summing_model2 = (3, 3)\<rparr>"
proof -
  have "main_args [''Gaussian_poolOrNot'', ''3x''] = Inr 3"
    by (simp add: atoi_def isspace_def isdigit_def digit_value_def uint_of_int_def)
  from counting_main [OF this] show ?thesis
    by (simp add: positive_integer_def isdigit_def numeral_3_eq_3)
qed

text \<open>A negative argument wraps when it is stored in the \<open>uint\<close>.\<close>

lemma main_args_negative: "main_args [''Gaussian_poolOrNot'', ''-5''] = Inr 4294967291"
  by (simp add: atoi_def isspace_def isdigit_def digit_value_def uint_of_int_def)

end
